theory Spec2Isabelle
  imports Main
begin

section \<open>Data model of monitor\_parts.py\<close>

text \<open>
  A Python \<open>str\<close> is a sequence of Unicode code points; a cell of the sheet is one such
  string.  \<open>py_str\<close> writes an ASCII literal of the source as its code points.
\<close>

type_synonym str = "nat list"

definition py_str :: "string \<Rightarrow> str" where
  "py_str s = map of_char s"

text \<open>
  A snapshot is what the Sheets values API returns and what the state file holds: a list
  of rows.  A well-formed row is a list of text cells, \<open>Row cells\<close>.  The code is
  dynamically typed, and the state file is unpickled without a check of its rows, so a row
  may also be an object that has no length (\<open>None\<close>, a number): \<open>NoLen\<close>, on which
  \<open>len\<close>, a subscript and a slice raise \<open>TypeError\<close>.  A well-formed snapshot is
  \<open>map Row rows\<close>.  A change is the tuple \<open>(part, old_val, new_val)\<close> appended by
  \<open>detect_changes\<close>.  Cells are strings, so \<open>str(x)\<close> of the source is the identity on
  them.
\<close>

datatype pyrow = Row "str list" | NoLen

type_synonym snapshot = "pyrow list"
type_synonym change = "str \<times> str \<times> str"

text \<open>
  The exceptions of the source that matter here: an out-of-range subscript raises
  \<open>IndexError\<close>, an operation on an object of the wrong type raises \<open>TypeError\<close>, and
  \<open>save_current_state\<close> raises \<open>APIError\<close> when writing fails.
\<close>

datatype error = IndexError | TypeError | APIError

definition and_then :: "error + 'a \<Rightarrow> ('a \<Rightarrow> error + 'b) \<Rightarrow> error + 'b" where
  "and_then r f = (case r of Inl e \<Rightarrow> Inl e | Inr x \<Rightarrow> f x)"

text \<open>Python subscript \<open>xs[i]\<close> of a list, with a non-negative index.\<close>

definition getitem :: "'a list \<Rightarrow> nat \<Rightarrow> error + 'a" where
  "getitem xs i = (if i < length xs then Inr (xs ! i) else Inl IndexError)"

text \<open>\<open>len(r)\<close>, \<open>r[i]\<close> and \<open>r[k:]\<close> of a row.\<close>

definition len :: "pyrow \<Rightarrow> error + nat" where
  "len r = (case r of Row cells \<Rightarrow> Inr (length cells) | NoLen \<Rightarrow> Inl TypeError)"

definition row_getitem :: "pyrow \<Rightarrow> nat \<Rightarrow> error + str" where
  "row_getitem r i = (case r of Row cells \<Rightarrow> getitem cells i | NoLen \<Rightarrow> Inl TypeError)"

definition slice_from :: "pyrow \<Rightarrow> nat \<Rightarrow> error + str list" where
  "slice_from r k = (case r of Row cells \<Rightarrow> Inr (drop k cells) | NoLen \<Rightarrow> Inl TypeError)"

subsection \<open>\<open>str.strip()\<close>\<close>

text \<open>
  \<open>str.strip()\<close> without arguments removes leading and trailing whitespace, that is the
  code points on which \<open>str.isspace\<close> holds: U+0009 to U+000D, U+001C to U+001F, U+0020,
  U+0085, U+00A0, U+1680, U+2000 to U+200A, U+2028, U+2029, U+202F, U+205F and U+3000.
\<close>

definition isspace :: "nat \<Rightarrow> bool" where
  "isspace c = (c \<in> set [0x09, 0x0A, 0x0B, 0x0C, 0x0D, 0x1C, 0x1D, 0x1E, 0x1F, 0x20,
                          0x85, 0xA0, 0x1680,
                          0x2000, 0x2001, 0x2002, 0x2003, 0x2004, 0x2005, 0x2006, 0x2007,
                          0x2008, 0x2009, 0x200A,
                          0x2028, 0x2029, 0x202F, 0x205F, 0x3000])"

definition strip :: "str \<Rightarrow> str" where
  "strip s = rev (dropWhile isspace (rev (dropWhile isspace s)))"

section \<open>The state file\<close>

text \<open>
  \<open>PREVIOUS_STATE_FILE\<close> either does not exist, holds the pickle of a snapshot, or holds
  bytes that \<open>pickle.load\<close> rejects.  Writing may succeed, fail before the file is
  touched (\<open>os.makedirs\<close> or \<open>open\<close> raises), or fail after \<open>open(.., 'wb')\<close> has
  truncated it (\<open>pickle.dump\<close> raises).
\<close>

datatype file_content = Pickled snapshot | Corrupt

datatype io_outcome = WriteOk | OpenFails | DumpFails

record fs =
  state_file :: "file_content option"
  io :: io_outcome

definition load_previous_state :: "fs \<Rightarrow> snapshot option" where
  "load_previous_state f =
     (case state_file f of
        None \<Rightarrow> None
      | Some Corrupt \<Rightarrow> None
      | Some (Pickled data) \<Rightarrow>
          (if data = [] \<or> length data < 3 then None else Some data))"

definition save_current_state :: "snapshot \<Rightarrow> fs \<Rightarrow> (error + unit) \<times> fs" where
  "save_current_state state f =
     (if state = [] \<or> length state < 3 then (Inr (), f)
      else (case io f of
              WriteOk \<Rightarrow> (Inr (), f\<lparr>state_file := Some (Pickled state)\<rparr>)
            | OpenFails \<Rightarrow> (Inl APIError, f)
            | DumpFails \<Rightarrow> (Inl APIError, f\<lparr>state_file := Some Corrupt\<rparr>)))"

section \<open>\<open>detect_changes\<close>\<close>

text \<open>Lines 184 to 186: the part headers, row 1 from column 2 on.\<close>

definition extract_part_headers :: "snapshot \<Rightarrow> error + str list" where
  "extract_part_headers current_data =
     (if length current_data > 1 then
        and_then (getitem current_data 1) (\<lambda>r.
        and_then (len r) (\<lambda>n.
          if n > 2 then slice_from r 2 else Inr []))
      else Inr [])"

text \<open>
  Lines 189 to 191 and 194 to 196 (the same code for \<open>previous_data\<close> and
  \<open>current_data\<close>; \<open>send_space_alert\<close> repeats it at lines 91 to 93): the values,
  row 0 from column 2 on.
\<close>

definition extract_values :: "snapshot \<Rightarrow> error + str list" where
  "extract_values data =
     (if length data > 0 then
        and_then (getitem data 0) (\<lambda>r.
        and_then (len r) (\<lambda>n.
          if n > 2 then slice_from r 2 else Inr []))
      else Inr [])"

text \<open>
  Lines 207 to 214: when headers and current values differ in length, headers and
  current values are cut to the shorter length, and the previous values too when longer.
  The result is \<open>(part_headers, curr_values, prev_values)\<close>.
\<close>

definition validate_structure ::
  "str list \<Rightarrow> str list \<Rightarrow> str list \<Rightarrow> str list \<times> str list \<times> str list" where
  "validate_structure part_headers curr_values prev_values =
     (if length part_headers \<noteq> length curr_values then
        (let compare_length = min (length part_headers) (length curr_values)
         in (take compare_length part_headers,
             take compare_length curr_values,
             (if length prev_values > compare_length then take compare_length prev_values
              else prev_values)))
      else (part_headers, curr_values, prev_values))"

text \<open>Lines 217 to 224: the previous values are padded with the empty string or cut.\<close>

definition reconcile :: "str list \<Rightarrow> str list \<Rightarrow> str list" where
  "reconcile prev_values curr_values =
     (if length prev_values < length curr_values then
        prev_values @ replicate (length curr_values - length prev_values) []
      else if length prev_values > length curr_values then
        take (length curr_values) prev_values
      else prev_values)"

text \<open>
  Lines 229 to 240: the loop \<open>for i in range(len(part_headers))\<close>, run over the list of
  indices, with \<open>changes\<close> as accumulator.
\<close>

fun compare_values ::
  "str list \<Rightarrow> str list \<Rightarrow> str list \<Rightarrow> nat list \<Rightarrow> change list \<Rightarrow> error + change list" where
  "compare_values part_headers prev_values curr_values [] changes = Inr changes"
| "compare_values part_headers prev_values curr_values (i # rest) changes =
     (if i \<ge> length prev_values \<or> i \<ge> length curr_values then
        compare_values part_headers prev_values curr_values rest changes
      else
        and_then (getitem prev_values i) (\<lambda>p.
        and_then (getitem curr_values i) (\<lambda>c.
          if strip p \<noteq> strip c then
            and_then (getitem part_headers i) (\<lambda>h.
              compare_values part_headers prev_values curr_values rest (changes @ [(h, p, c)]))
          else compare_values part_headers prev_values curr_values rest changes)))"

text \<open>
  Lines 182 to 240: everything before the total check; the per-part changes.  The debug
  prints of lines 199 to 204 take the length of rows whose length lines 185, 190 and 195
  have already taken, behind the same guards; they cannot raise and change nothing, and
  are left out.
\<close>

definition part_changes :: "snapshot \<Rightarrow> snapshot \<Rightarrow> error + change list" where
  "part_changes previous_data current_data =
     and_then (extract_part_headers current_data) (\<lambda>part_headers.
     and_then (extract_values previous_data) (\<lambda>prev_values.
     and_then (extract_values current_data) (\<lambda>curr_values.
       (case validate_structure part_headers curr_values prev_values of
          (part_headers, curr_values, prev_values) \<Rightarrow>
            compare_values part_headers (reconcile prev_values curr_values) curr_values
              [0..<length part_headers] []))))"

text \<open>
  Lines 243 to 249: the total weight, row 0 column 1.  The \<open>and\<close> of line 243 is
  short-circuit: \<open>current_data[0]\<close> is only read when the previous row 0 has more
  than one cell.
\<close>

definition total_check :: "snapshot \<Rightarrow> snapshot \<Rightarrow> change list \<Rightarrow> error + change list" where
  "total_check previous_data current_data changes =
     and_then (getitem previous_data 0) (\<lambda>p0.
     and_then (len p0) (\<lambda>pn.
       if pn > 1 then
         and_then (getitem current_data 0) (\<lambda>c0.
         and_then (len c0) (\<lambda>cn.
           if cn > 1 then
             and_then (row_getitem p0 1) (\<lambda>prev_total.
             and_then (row_getitem c0 1) (\<lambda>curr_total.
               if strip prev_total \<noteq> strip curr_total then
                 Inr (changes @ [(py_str ''TOTAL WEIGHTS'', prev_total, curr_total)])
               else Inr changes))
           else Inr changes))
       else Inr changes))"

text \<open>The body of the \<open>try\<close> block, lines 182 to 255.\<close>

definition detect_body :: "snapshot \<Rightarrow> snapshot \<Rightarrow> error + change list" where
  "detect_body previous_data current_data =
     and_then (part_changes previous_data current_data)
       (total_check previous_data current_data)"

text \<open>
  \<open>detect_changes\<close>, lines 175 to 263.  \<open>not previous_data\<close> holds for \<open>None\<close> and for
  the empty list.  The handler of line 256 catches every exception of the body, calls
  \<open>save_current_state(current_data)\<close> and returns \<open>[]\<close>; an \<open>APIError\<close> raised by that
  call leaves \<open>detect_changes\<close>.
\<close>

definition detect_changes ::
  "snapshot option \<Rightarrow> snapshot \<Rightarrow> fs \<Rightarrow> (error + change list) \<times> fs" where
  "detect_changes previous_data current_data f =
     (case previous_data of
        None \<Rightarrow> (Inr [], f)
      | Some prev \<Rightarrow>
          if prev = [] then (Inr [], f)
          else (case detect_body prev current_data of
                  Inr changes \<Rightarrow> (Inr changes, f)
                | Inl e \<Rightarrow>
                    (case save_current_state current_data f of
                       (Inl e', f') \<Rightarrow> (Inl e', f')
                     | (Inr u, f') \<Rightarrow> (Inr [], f'))))"

section \<open>The comparison rule of the specification\<close>

text \<open>
  The specification's rule for the aligned triples \<open>(label, prevVal, currVal)\<close>: a change
  is reported for exactly the triples whose values differ after trimming, in the order of
  the triples.  It is stated on its own, to be compared with the loop of the source.
\<close>

definition trimmed_mismatches :: "(str \<times> str \<times> str) list \<Rightarrow> change list" where
  "trimmed_mismatches triples =
     filter (\<lambda>(label, prevVal, currVal). strip prevVal \<noteq> strip currVal) triples"

section \<open>Basic facts\<close>

lemma and_then_Inr [simp]: "and_then (Inr x) f = f x"
  by (simp add: and_then_def)

lemma and_then_Inl [simp]: "and_then (Inl e) f = Inl e"
  by (simp add: and_then_def)

lemma getitem_in [simp]: "i < length xs \<Longrightarrow> getitem xs i = Inr (xs ! i)"
  by (simp add: getitem_def)

lemma getitem_out [simp]: "length xs \<le> i \<Longrightarrow> getitem xs i = Inl IndexError"
  by (simp add: getitem_def)

lemma len_Row [simp]: "len (Row cells) = Inr (length cells)"
  by (simp add: len_def)

lemma len_NoLen [simp]: "len NoLen = Inl TypeError"
  by (simp add: len_def)

lemma row_getitem_Row [simp]: "row_getitem (Row cells) i = getitem cells i"
  by (simp add: row_getitem_def)

lemma slice_from_Row [simp]: "slice_from (Row cells) k = Inr (drop k cells)"
  by (simp add: slice_from_def)

text \<open>On a well-formed snapshot the guards of both extractions keep every subscript in range.\<close>

lemma extract_part_headers_Row:
  "extract_part_headers (map Row d) =
     Inr (if 1 < length d \<and> 2 < length (d ! 1) then drop 2 (d ! 1) else [])"
  by (simp add: extract_part_headers_def)

lemma extract_values_Row:
  "extract_values (map Row d) =
     Inr (if 0 < length d \<and> 2 < length (d ! 0) then drop 2 (d ! 0) else [])"
  by (simp add: extract_values_def)

subsection \<open>The loop\<close>

text \<open>
  With every index below the number of headers the loop never raises; it collects, in
  index order, the positions present in both value lists whose trimmed values differ.
\<close>

lemma compare_values_eq:
  "\<forall>i \<in> set idx. i < length hs \<Longrightarrow>
   compare_values hs pv cv idx acc =
     Inr (acc @ map (\<lambda>i. (hs ! i, pv ! i, cv ! i))
                  (filter (\<lambda>i. i < length pv \<and> i < length cv \<and>
                                 strip (pv ! i) \<noteq> strip (cv ! i)) idx))"
proof (induction idx arbitrary: acc)
  case Nil
  then show ?case by simp
next
  case (Cons i idx)
  then show ?case by (auto simp: not_le)
qed

lemma nth_triples:
  "length hs = n \<Longrightarrow> length pv = n \<Longrightarrow> length cv = n \<Longrightarrow>
   map (\<lambda>i. (hs ! i, pv ! i, cv ! i)) [0..<n] = zip hs (zip pv cv)"
  by (simp add: list_eq_iff_nth_eq)

lemma compare_values_aligned:
  assumes "length hs = n" "length pv = n" "length cv = n"
  shows "compare_values hs pv cv [0..<n] [] = Inr (trimmed_mismatches (zip hs (zip pv cv)))"
proof -
  let ?f = "\<lambda>i. (hs ! i, pv ! i, cv ! i)"
  let ?P = "\<lambda>(l :: str, p, c). strip p \<noteq> strip c"
  let ?Q = "\<lambda>i. i < length pv \<and> i < length cv \<and> strip (pv ! i) \<noteq> strip (cv ! i)"
  have "compare_values hs pv cv [0..<n] [] = Inr (map ?f (filter ?Q [0..<n]))"
    using assms by (simp add: compare_values_eq)
  also have "filter ?Q [0..<n] = filter (?P \<circ> ?f) [0..<n]"
    using assms by (intro filter_cong) auto
  also have "map ?f (filter (?P \<circ> ?f) [0..<n]) = filter ?P (map ?f [0..<n])"
    by (simp add: filter_map)
  also have "map ?f [0..<n] = zip hs (zip pv cv)"
    using assms by (rule nth_triples)
  finally show ?thesis by (simp add: trimmed_mismatches_def)
qed

subsection \<open>Alignment\<close>

text \<open>
  After lines 207 to 224 the three lists have the length \<open>n\<close>, the smaller of the
  header count and the current value count; the previous values are the first \<open>n\<close> of
  the extracted ones, followed by the padding.
\<close>

lemma validate_reconcile:
  assumes "validate_structure hs cv pv = (hs', cv', pv')" "n = min (length hs) (length cv)"
  shows "hs' = take n hs" "cv' = take n cv"
    "reconcile pv' cv' = take n pv @ replicate (n - length pv) []"
  using assms
  by (auto simp: validate_structure_def reconcile_def Let_def min_def split: if_splits)

lemma part_changes_eq:
  assumes "extract_part_headers cur = Inr hs" "extract_values prev = Inr pv"
    "extract_values cur = Inr cv" "n = min (length hs) (length cv)"
  shows "part_changes prev cur =
     Inr (trimmed_mismatches
            (zip (take n hs) (zip (take n pv @ replicate (n - length pv) []) (take n cv))))"
proof -
  obtain hs' cv' pv' where v: "validate_structure hs cv pv = (hs', cv', pv')"
    by (cases "validate_structure hs cv pv") auto
  note r = validate_reconcile [OF v assms(4)]
  have "part_changes prev cur = compare_values hs' (reconcile pv' cv') cv' [0..<length hs'] []"
    using assms v by (simp add: part_changes_def)
  also have "\<dots> = Inr (trimmed_mismatches (zip hs' (zip (reconcile pv' cv') cv')))"
  proof (rule compare_values_aligned)
    show "length hs' = length hs'" by simp
    show "length (reconcile pv' cv') = length hs'"
      by (simp add: r(3) r(1) assms(4))
    show "length cv' = length hs'"
      unfolding r by (simp add: assms(4))
  qed
  finally have "part_changes prev cur =
      Inr (trimmed_mismatches (zip hs' (zip (reconcile pv' cv') cv')))" .
  then have "part_changes prev cur =
      Inr (trimmed_mismatches (zip hs' (zip (take n pv @ replicate (n - length pv) []) cv')))"
    by (simp only: r(3))
  then show ?thesis by (simp only: r(1) r(2))
qed

lemma part_changes_Row_never_raises:
  "\<exists>pc. part_changes (map Row prev) (map Row cur) = Inr pc"
  using part_changes_eq [OF extract_part_headers_Row extract_values_Row extract_values_Row refl]
  by blast

lemma part_changes_no_current:
  assumes "extract_part_headers (map Row cur) = Inr [] \<or> extract_values (map Row cur) = Inr []"
  shows "part_changes (map Row prev) (map Row cur) = Inr []"
proof -
  obtain hs where hs: "extract_part_headers (map Row cur) = Inr hs"
    using extract_part_headers_Row by blast
  obtain pv where pv: "extract_values (map Row prev) = Inr pv"
    using extract_values_Row by blast
  obtain cv where cv: "extract_values (map Row cur) = Inr cv"
    using extract_values_Row by blast
  have "min (length hs) (length cv) = 0"
    using assms hs cv by auto
  then show ?thesis
    using part_changes_eq [OF hs pv cv refl] by (simp add: trimmed_mismatches_def)
qed

lemma part_change_labels:
  assumes "part_changes (map Row prev) (map Row cur) = Inr pc" "(l, p, c) \<in> set pc"
  shows "1 < length cur \<and> l \<in> set (drop 2 (cur ! 1))"
proof -
  define hs where "hs = (if 1 < length cur \<and> 2 < length (cur ! 1) then drop 2 (cur ! 1) else [])"
  have e: "extract_part_headers (map Row cur) = Inr hs"
    unfolding hs_def by (rule extract_part_headers_Row)
  obtain pv where pv: "extract_values (map Row prev) = Inr pv"
    using extract_values_Row by blast
  obtain cv where cv: "extract_values (map Row cur) = Inr cv"
    using extract_values_Row by blast
  define n where "n = min (length hs) (length cv)"
  have "pc = trimmed_mismatches
          (zip (take n hs) (zip (take n pv @ replicate (n - length pv) []) (take n cv)))"
    using part_changes_eq [OF e pv cv n_def] assms(1) by simp
  then have "l \<in> set (take n hs)"
    using assms(2) by (auto simp: trimmed_mismatches_def dest: set_zip_leftD)
  then have "l \<in> set hs" by (rule in_set_takeD)
  then show ?thesis by (auto simp: hs_def split: if_splits)
qed

lemma no_self_mismatch:
  "filter (\<lambda>(l, p, c). strip p \<noteq> strip c) (zip hs (zip xs xs)) = []"
  by (auto simp: filter_empty_conv zip_same_conv_map dest!: set_zip_rightD)

subsection \<open>The total check and the whole function\<close>

lemma total_check_eq:
  "prev \<noteq> [] \<Longrightarrow> cur \<noteq> [] \<Longrightarrow>
   total_check (map Row prev) (map Row cur) ch =
     Inr (if 1 < length (prev ! 0) \<and> 1 < length (cur ! 0) \<and>
             strip (prev ! 0 ! 1) \<noteq> strip (cur ! 0 ! 1)
          then ch @ [(py_str ''TOTAL WEIGHTS'', prev ! 0 ! 1, cur ! 0 ! 1)] else ch)"
  by (simp add: total_check_def)

lemma detect_body_eq:
  assumes "prev \<noteq> []" "cur \<noteq> []" "part_changes (map Row prev) (map Row cur) = Inr pc"
  shows "detect_body (map Row prev) (map Row cur) =
     Inr (if 1 < length (prev ! 0) \<and> 1 < length (cur ! 0) \<and>
             strip (prev ! 0 ! 1) \<noteq> strip (cur ! 0 ! 1)
          then pc @ [(py_str ''TOTAL WEIGHTS'', prev ! 0 ! 1, cur ! 0 ! 1)] else pc)"
  using assms by (simp add: detect_body_def total_check_eq)

lemma detect_changes_eq:
  assumes "prev \<noteq> []" "cur \<noteq> []" "part_changes (map Row prev) (map Row cur) = Inr pc"
  shows "detect_changes (Some (map Row prev)) (map Row cur) f =
     (Inr (if 1 < length (prev ! 0) \<and> 1 < length (cur ! 0) \<and>
              strip (prev ! 0 ! 1) \<noteq> strip (cur ! 0 ! 1)
           then pc @ [(py_str ''TOTAL WEIGHTS'', prev ! 0 ! 1, cur ! 0 ! 1)] else pc), f)"
  using assms(1) by (simp add: detect_changes_def detect_body_eq [OF assms])

text \<open>Of the previous snapshot only row 0 is read.\<close>

lemma previous_row0_only:
  assumes "prev \<noteq> []" "prev' \<noteq> []" "prev ! 0 = prev' ! 0"
  shows "detect_changes (Some prev) cur f = detect_changes (Some prev') cur f"
proof -
  have "extract_values prev = extract_values prev'"
    using assms by (simp add: extract_values_def)
  then have "part_changes prev cur = part_changes prev' cur"
    by (simp add: part_changes_def)
  moreover have "total_check prev cur = total_check prev' cur"
    using assms by (simp add: total_check_def fun_eq_iff)
  ultimately have "detect_body prev cur = detect_body prev' cur"
    by (simp add: detect_body_def)
  then show ?thesis using assms by (simp add: detect_changes_def)
qed

text \<open>The exceptions of the comparison itself never leave \<open>detect_changes\<close>.\<close>

lemma detect_changes_only_APIError:
  "fst (detect_changes previous cur f) = Inl e \<Longrightarrow> e = APIError"
  by (auto simp: detect_changes_def save_current_state_def
      split: option.splits sum.splits if_splits io_outcome.splits prod.splits)

text \<open>What the handler does once the comparison has raised.\<close>

lemma detect_changes_handler:
  assumes "prev \<noteq> []" "detect_body prev cur = Inl e"
  shows "detect_changes (Some prev) cur f =
     (case save_current_state cur f of
        (Inl e', f') \<Rightarrow> (Inl e', f')
      | (Inr u, f') \<Rightarrow> (Inr [], f'))"
  using assms by (simp add: detect_changes_def)

text \<open>The result of the first part on well-formed snapshots, in closed form.\<close>

lemma part_changes_Row:
  "part_changes (map Row prev) (map Row cur) =
     (let hs = (if 1 < length cur \<and> 2 < length (cur ! 1) then drop 2 (cur ! 1) else []);
          pv = (if 0 < length prev \<and> 2 < length (prev ! 0) then drop 2 (prev ! 0) else []);
          cv = (if 0 < length cur \<and> 2 < length (cur ! 0) then drop 2 (cur ! 0) else []);
          n = min (length hs) (length cv)
      in Inr (trimmed_mismatches
            (zip (take n hs) (zip (take n pv @ replicate (n - length pv) []) (take n cv)))))"
  unfolding Let_def
  by (rule part_changes_eq [OF extract_part_headers_Row extract_values_Row extract_values_Row refl])

text \<open>The alignment example of the specification, for any date, total and label-row prefix.\<close>

lemma example_alignment:
  "detect_changes (Some (Row [d, t, py_str ''1'', py_str ''2''] # Row [x, y, py_str ''A'', py_str ''B''] # r))
        (Row [d', t, py_str ''1'', py_str ''2'', py_str ''3'']
           # Row [x', y', py_str ''A'', py_str ''B'', py_str ''C''] # r') f
     = (Inr [(py_str ''C'', [], py_str ''3'')], f)"
proof -
  let ?prev = "Row [d, t, py_str ''1'', py_str ''2''] # Row [x, y, py_str ''A'', py_str ''B''] # r"
  let ?cur = "Row [d', t, py_str ''1'', py_str ''2'', py_str ''3'']
                # Row [x', y', py_str ''A'', py_str ''B'', py_str ''C''] # r'"
  have hs: "extract_part_headers ?cur = Inr [py_str ''A'', py_str ''B'', py_str ''C'']"
    by (simp add: extract_part_headers_def)
  have pv: "extract_values ?prev = Inr [py_str ''1'', py_str ''2'']"
    by (simp add: extract_values_def)
  have cv: "extract_values ?cur = Inr [py_str ''1'', py_str ''2'', py_str ''3'']"
    by (simp add: extract_values_def)
  have "part_changes ?prev ?cur = Inr (trimmed_mismatches
          (zip [py_str ''A'', py_str ''B'', py_str ''C'']
             (zip [py_str ''1'', py_str ''2'', []] [py_str ''1'', py_str ''2'', py_str ''3''])))"
    using part_changes_eq [OF hs pv cv refl] by simp
  also have "\<dots> = Inr [(py_str ''C'', [], py_str ''3'')]"
    by (simp add: trimmed_mismatches_def strip_def isspace_def py_str_def)
  finally show ?thesis
    by (simp add: detect_changes_def detect_body_def total_check_def)
qed

section \<open>The claims\<close>

subsection \<open>C6: no previous state\<close>

text \<open>
  Claim C6.  When the previous snapshot is absent, \<open>None\<close> or the empty list,
  \<open>detect_changes\<close> returns the empty change list for every current snapshot, and
  leaves the state file alone.
\<close>

theorem first_run_no_changes:
  "detect_changes None cur f = (Inr [], f) \<and> detect_changes (Some []) cur f = (Inr [], f)"
  by (simp add: detect_changes_def)

text \<open>C6 at the baseline snapshot of the specification's end-to-end scenario.\<close>

theorem first_run_no_changes_witness:
  "detect_changes None
       (map Row (map (map py_str) [[''2024-01-01'', ''100'', '''', ''x''], ['''', ''TYPE'', ''WINGS''], []]))
       \<lparr>state_file = None, io = WriteOk\<rparr> = (Inr [], \<lparr>state_file = None, io = WriteOk\<rparr>) \<and>
   detect_changes (Some [])
       (map Row (map (map py_str) [[''2024-01-01'', ''100'', '''', ''x''], ['''', ''TYPE'', ''WINGS''], []]))
       \<lparr>state_file = None, io = WriteOk\<rparr> = (Inr [], \<lparr>state_file = None, io = WriteOk\<rparr>)"
  using first_run_no_changes
    [of "map Row (map (map py_str) [[''2024-01-01'', ''100'', '''', ''x''], ['''', ''TYPE'', ''WINGS''], []])"
        "\<lparr>state_file = None, io = WriteOk\<rparr>"]
  by simp

subsection \<open>C5: a snapshot compared with itself\<close>

text \<open>
  Claim C5.  For every well-formed snapshot \<open>S\<close> with at least 3 rows, \<open>detect_changes\<close>
  with \<open>S\<close> as previous and as current snapshot returns the empty change list.
\<close>

theorem snapshot_equals_itself:
  assumes "3 \<le> length S"
  shows "detect_changes (Some (map Row S)) (map Row S) f = (Inr [], f)"
proof -
  have ne: "S \<noteq> []" using assms by auto
  obtain hs where hs: "extract_part_headers (map Row S) = Inr hs"
    using extract_part_headers_Row by blast
  obtain v where v: "extract_values (map Row S) = Inr v"
    using extract_values_Row by blast
  define n where "n = min (length hs) (length v)"
  have "part_changes (map Row S) (map Row S) = Inr (trimmed_mismatches
          (zip (take n hs) (zip (take n v @ replicate (n - length v) []) (take n v))))"
    using hs v v n_def by (rule part_changes_eq)
  moreover have "n - length v = 0" by (simp add: n_def)
  ultimately have "part_changes (map Row S) (map Row S) = Inr []"
    by (simp add: trimmed_mismatches_def no_self_mismatch)
  then show ?thesis
    using detect_changes_eq [OF ne ne, of "[]" f] by simp
qed

text \<open>C5 at a snapshot whose label row is shorter than its value row.\<close>

theorem snapshot_equals_itself_witness:
  "detect_changes
     (Some (map Row (map (map py_str) [[''2024-01-01'', ''100'', '''', ''x''], ['''', ''TYPE'', ''WINGS''], []])))
     (map Row (map (map py_str) [[''2024-01-01'', ''100'', '''', ''x''], ['''', ''TYPE'', ''WINGS''], []]))
     \<lparr>state_file = None, io = WriteOk\<rparr> = (Inr [], \<lparr>state_file = None, io = WriteOk\<rparr>)"
  using snapshot_equals_itself
    [of "map (map py_str) [[''2024-01-01'', ''100'', '''', ''x''], ['''', ''TYPE'', ''WINGS''], []]"
        "\<lparr>state_file = None, io = WriteOk\<rparr>"]
  by simp

subsection \<open>C1: the total change comes last\<close>

text \<open>
  Claim C1, as the code has it.  When row 0 of both snapshots has at least 2 cells and
  the cells at row 0, column 1 differ after trimming, \<open>detect_changes\<close> returns the
  per-part changes followed by exactly one more change, which carries the previous and
  the current total cell.  Its label is \<open>TOTAL WEIGHTS\<close>.
\<close>

theorem total_change_appended_last:
  assumes "prev \<noteq> []" "cur \<noteq> []" "2 \<le> length (prev ! 0)" "2 \<le> length (cur ! 0)"
    and "strip (prev ! 0 ! 1) \<noteq> strip (cur ! 0 ! 1)"
  shows "\<exists>pc. part_changes (map Row prev) (map Row cur) = Inr pc \<and>
           detect_changes (Some (map Row prev)) (map Row cur) f =
             (Inr (pc @ [(py_str ''TOTAL WEIGHTS'', prev ! 0 ! 1, cur ! 0 ! 1)]), f)"
proof -
  obtain pc where pc: "part_changes (map Row prev) (map Row cur) = Inr pc"
    using part_changes_Row_never_raises by blast
  have "detect_changes (Some (map Row prev)) (map Row cur) f =
          (Inr (pc @ [(py_str ''TOTAL WEIGHTS'', prev ! 0 ! 1, cur ! 0 ! 1)]), f)"
    using assms(3-5) by (simp add: detect_changes_eq [OF assms(1,2) pc])
  with pc show ?thesis by blast
qed

text \<open>C1 where a part and the total change in the same run: the total change is last.\<close>

theorem total_change_appended_last_witness:
  "detect_changes (Some (map Row (map (map py_str) [[''d'', ''100'', ''1''], ['''', ''T'', ''W''], []])))
       (map Row (map (map py_str) [[''d'', ''200'', ''2''], ['''', ''T'', ''W''], []]))
       \<lparr>state_file = None, io = WriteOk\<rparr> =
     (Inr [(py_str ''W'', py_str ''1'', py_str ''2''),
           (py_str ''TOTAL WEIGHTS'', py_str ''100'', py_str ''200'')],
      \<lparr>state_file = None, io = WriteOk\<rparr>)"
proof -
  have h: "part_changes (map Row (map (map py_str) [[''d'', ''100'', ''1''], ['''', ''T'', ''W''], []]))
             (map Row (map (map py_str) [[''d'', ''200'', ''2''], ['''', ''T'', ''W''], []]))
           = Inr [(py_str ''W'', py_str ''1'', py_str ''2'')]"
    by (subst part_changes_Row)
       (simp add: trimmed_mismatches_def strip_def isspace_def py_str_def)
  have s: "strip (py_str ''100'') \<noteq> strip (py_str ''200'')"
    by (simp add: strip_def isspace_def py_str_def)
  show ?thesis
    using h s total_change_appended_last
      [of "map (map py_str) [[''d'', ''100'', ''1''], ['''', ''T'', ''W''], []]"
          "map (map py_str) [[''d'', ''200'', ''2''], ['''', ''T'', ''W''], []]"
          "\<lparr>state_file = None, io = WriteOk\<rparr>"]
    by simp
qed

text \<open>
  The label is not \<open>TOTAL\<close>: with totals \<open>100\<close> and \<open>200\<close> and nothing else changed, the
  only change returned is labelled \<open>TOTAL WEIGHTS\<close>.
\<close>

theorem total_label_counterexample:
  "strip (py_str ''100'') \<noteq> strip (py_str ''200'') \<and>
   detect_changes (Some (map Row (map (map py_str) [[''d'', ''100'', ''1''], ['''', ''T'', ''W''], []])))
       (map Row (map (map py_str) [[''d'', ''200'', ''1''], ['''', ''T'', ''W''], []]))
       \<lparr>state_file = None, io = WriteOk\<rparr>
     = (Inr [(py_str ''TOTAL WEIGHTS'', py_str ''100'', py_str ''200'')],
        \<lparr>state_file = None, io = WriteOk\<rparr>) \<and>
   py_str ''TOTAL'' \<notin> set (map fst [(py_str ''TOTAL WEIGHTS'', py_str ''100'', py_str ''200'')])"
proof -
  have h: "part_changes (map Row (map (map py_str) [[''d'', ''100'', ''1''], ['''', ''T'', ''W''], []]))
             (map Row (map (map py_str) [[''d'', ''200'', ''1''], ['''', ''T'', ''W''], []]))
           = Inr []"
    by (subst part_changes_Row)
       (simp add: trimmed_mismatches_def strip_def isspace_def py_str_def)
  have s: "strip (py_str ''100'') \<noteq> strip (py_str ''200'')"
    by (simp add: strip_def isspace_def py_str_def)
  have t: "py_str ''TOTAL'' \<noteq> py_str ''TOTAL WEIGHTS''"
    by (simp add: py_str_def)
  show ?thesis
    using s t detect_changes_eq [OF _ _ h, of "\<lparr>state_file = None, io = WriteOk\<rparr>"]
    by simp
qed

subsection \<open>C2: padding and truncation of the previous values\<close>

text \<open>
  Claim C2.  Let \<open>hs\<close> and \<open>vs\<close> be the headers and values extracted from the current
  snapshot, \<open>pv\<close> the values extracted from the previous one, and \<open>n\<close> the length of the
  current list once headers and values are cut to the shorter of the two.  When \<open>pv\<close> is
  shorter than that, the changes are those of \<open>pv\<close> padded at the tail with empty strings
  up to length \<open>n\<close>; when it is longer, those of its first \<open>n\<close> entries.  Consequently,
  with previous labels A, B and values 1, 2, and current labels A, B, C and values 1, 2, 3
  (same total), \<open>detect_changes\<close> returns exactly one change: C, from the empty string
  to 3.
\<close>

theorem previous_values_padded_or_truncated:
  assumes "extract_part_headers cur = Inr hs" "extract_values cur = Inr vs"
    and "extract_values prev = Inr pv" "n = min (length hs) (length vs)"
  shows "(length pv < n \<longrightarrow>
            part_changes prev cur = Inr (trimmed_mismatches
              (zip (take n hs) (zip (pv @ replicate (n - length pv) []) (take n vs))))) \<and>
         (n < length pv \<longrightarrow>
            part_changes prev cur = Inr (trimmed_mismatches
              (zip (take n hs) (zip (take n pv) (take n vs))))) \<and>
         detect_changes
              (Some (Row [d, t, py_str ''1'', py_str ''2''] # Row [x, y, py_str ''A'', py_str ''B''] # r))
              (Row [d', t, py_str ''1'', py_str ''2'', py_str ''3'']
                 # Row [x', y', py_str ''A'', py_str ''B'', py_str ''C''] # r') f
           = (Inr [(py_str ''C'', [], py_str ''3'')], f)"
  using part_changes_eq [OF assms(1,3,2,4)] example_alignment by simp

text \<open>C2 at a previous list one entry short, and at one that is one entry too long.\<close>

theorem previous_values_padded_or_truncated_witness:
  "part_changes (map Row (map (map py_str) [[''d'', ''t'', ''1'', ''2''], ['''', ''P'', ''A'', ''B''], []]))
       (map Row (map (map py_str) [[''d'', ''t'', ''1'', ''2'', ''3''], ['''', ''P'', ''A'', ''B'', ''C''], []]))
     = Inr (trimmed_mismatches (zip (map py_str [''A'', ''B'', ''C''])
              (zip (map py_str [''1'', ''2''] @ replicate (3 - 2) []) (map py_str [''1'', ''2'', ''3''])))) \<and>
   part_changes (map Row (map (map py_str) [[''d'', ''t'', ''1'', ''2'', ''9''], ['''', ''P'', ''A'', ''B'', ''C''], []]))
       (map Row (map (map py_str) [[''d'', ''t'', ''1'', ''5''], ['''', ''P'', ''A'', ''B''], []]))
     = Inr (trimmed_mismatches (zip (map py_str [''A'', ''B''])
              (zip (take 2 (map py_str [''1'', ''2'', ''9''])) (map py_str [''1'', ''5'']))))"
  using previous_values_padded_or_truncated
    [of "map Row (map (map py_str) [[''d'', ''t'', ''1'', ''2'', ''3''], ['''', ''P'', ''A'', ''B'', ''C''], []])"
        "map py_str [''A'', ''B'', ''C'']" "map py_str [''1'', ''2'', ''3'']"
        "map Row (map (map py_str) [[''d'', ''t'', ''1'', ''2''], ['''', ''P'', ''A'', ''B''], []])"
        "map py_str [''1'', ''2'']" 3]
    previous_values_padded_or_truncated
    [of "map Row (map (map py_str) [[''d'', ''t'', ''1'', ''5''], ['''', ''P'', ''A'', ''B''], []])"
        "map py_str [''A'', ''B'']" "map py_str [''1'', ''5'']"
        "map Row (map (map py_str) [[''d'', ''t'', ''1'', ''2'', ''9''], ['''', ''P'', ''A'', ''B'', ''C''], []])"
        "map py_str [''1'', ''2'', ''9'']" 2]
  by (simp add: extract_part_headers_def extract_values_def)

subsection \<open>C3: trimmed string comparison, in positional order\<close>

text \<open>
  Claim C3.  On well-formed snapshots \<open>detect_changes\<close> returns, before the total change
  if there is one, exactly the aligned triples \<open>(label, prevVal, currVal)\<close> whose values
  differ as strings after stripping surrounding whitespace, in positional order.  In
  particular it reports nothing for \<open>" 5 "\<close> against \<open>"5"\<close>, and a change for \<open>"5.0"\<close>
  against \<open>"5"\<close>: nothing is parsed as a number.
\<close>

theorem detect_changes_trimmed_comparison:
  assumes "prev \<noteq> []" "cur \<noteq> []"
    and "extract_part_headers (map Row cur) = Inr hs" "extract_values (map Row cur) = Inr vs"
    and "extract_values (map Row prev) = Inr pv" "n = min (length hs) (length vs)"
  shows "detect_changes (Some (map Row prev)) (map Row cur) f =
           (Inr (filter (\<lambda>(label, prevVal, currVal). strip prevVal \<noteq> strip currVal)
                   (zip (take n hs) (zip (take n pv @ replicate (n - length pv) []) (take n vs)))
                 @ (if 1 < length (prev ! 0) \<and> 1 < length (cur ! 0) \<and>
                       strip (prev ! 0 ! 1) \<noteq> strip (cur ! 0 ! 1)
                    then [(py_str ''TOTAL WEIGHTS'', prev ! 0 ! 1, cur ! 0 ! 1)] else [])), f) \<and>
         detect_changes (Some [Row [d, t, py_str '' 5 '']])
             [Row [d', t, py_str ''5''], Row [x, y, l]] f = (Inr [], f) \<and>
         detect_changes (Some [Row [d, t, py_str ''5.0'']])
             [Row [d', t, py_str ''5''], Row [x, y, l]] f = (Inr [(l, py_str ''5.0'', py_str ''5'')], f)"
proof -
  have hs1: "extract_part_headers [Row [d', t, py_str ''5''], Row [x, y, l]] = Inr [l]"
    by (simp add: extract_part_headers_def)
  have cv1: "extract_values [Row [d', t, py_str ''5''], Row [x, y, l]] = Inr [py_str ''5'']"
    by (simp add: extract_values_def)
  have pa: "extract_values [Row [d, t, py_str '' 5 '']] = Inr [py_str '' 5 '']"
    by (simp add: extract_values_def)
  have pb: "extract_values [Row [d, t, py_str ''5.0'']] = Inr [py_str ''5.0'']"
    by (simp add: extract_values_def)
  have "part_changes [Row [d, t, py_str '' 5 '']] [Row [d', t, py_str ''5''], Row [x, y, l]]
          = Inr (trimmed_mismatches [(l, py_str '' 5 '', py_str ''5'')])"
    using part_changes_eq [OF hs1 pa cv1 refl] by simp
  also have "\<dots> = Inr []"
    by (simp add: trimmed_mismatches_def strip_def isspace_def py_str_def)
  finally have a: "detect_changes (Some [Row [d, t, py_str '' 5 '']])
             [Row [d', t, py_str ''5''], Row [x, y, l]] f = (Inr [], f)"
    by (simp add: detect_changes_def detect_body_def total_check_def)
  have "part_changes [Row [d, t, py_str ''5.0'']] [Row [d', t, py_str ''5''], Row [x, y, l]]
          = Inr (trimmed_mismatches [(l, py_str ''5.0'', py_str ''5'')])"
    using part_changes_eq [OF hs1 pb cv1 refl] by simp
  also have "\<dots> = Inr [(l, py_str ''5.0'', py_str ''5'')]"
    by (simp add: trimmed_mismatches_def strip_def isspace_def py_str_def)
  finally have b: "detect_changes (Some [Row [d, t, py_str ''5.0'']])
             [Row [d', t, py_str ''5''], Row [x, y, l]] f = (Inr [(l, py_str ''5.0'', py_str ''5'')], f)"
    by (simp add: detect_changes_def detect_body_def total_check_def)
  have "part_changes (map Row prev) (map Row cur) =
     Inr (trimmed_mismatches
            (zip (take n hs) (zip (take n pv @ replicate (n - length pv) []) (take n vs))))"
    using assms(3,5,4,6) by (rule part_changes_eq)
  from detect_changes_eq [OF assms(1,2) this, of f] a b show ?thesis
    by (simp add: trimmed_mismatches_def)
qed

text \<open>
  C3 on four parts: the first differs in ASCII whitespace only and the last in a
  no-break space and an em space only; the other two are reported, in order.
\<close>

theorem detect_changes_trimmed_comparison_witness:
  "detect_changes
      (Some (map Row [[py_str ''d'', py_str ''t'', py_str '' 5 '', py_str ''5.0'', py_str ''7'', py_str ''9'' @ [0xA0]]]))
      (map Row [[py_str ''d'', py_str ''t'', py_str ''5'', py_str ''5'', py_str ''8'', [0x2003] @ py_str ''9''],
                [[], py_str ''P'', py_str ''A'', py_str ''B'', py_str ''C'', py_str ''D'']])
      \<lparr>state_file = None, io = WriteOk\<rparr>
     = (Inr [(py_str ''B'', py_str ''5.0'', py_str ''5''), (py_str ''C'', py_str ''7'', py_str ''8'')],
        \<lparr>state_file = None, io = WriteOk\<rparr>)"
proof -
  let ?P = "[[py_str ''d'', py_str ''t'', py_str '' 5 '', py_str ''5.0'', py_str ''7'', py_str ''9'' @ [0xA0]]]"
  let ?C = "[[py_str ''d'', py_str ''t'', py_str ''5'', py_str ''5'', py_str ''8'', [0x2003] @ py_str ''9''],
             [[], py_str ''P'', py_str ''A'', py_str ''B'', py_str ''C'', py_str ''D'']]"
  have p: "?P \<noteq> []" and c: "?C \<noteq> []"
    by simp_all
  have hs: "extract_part_headers (map Row ?C) = Inr [py_str ''A'', py_str ''B'', py_str ''C'', py_str ''D'']"
    by (simp add: extract_part_headers_def)
  have vs: "extract_values (map Row ?C) = Inr [py_str ''5'', py_str ''5'', py_str ''8'', [0x2003] @ py_str ''9'']"
    by (simp add: extract_values_def)
  have pv: "extract_values (map Row ?P) = Inr [py_str '' 5 '', py_str ''5.0'', py_str ''7'', py_str ''9'' @ [0xA0]]"
    by (simp add: extract_values_def)
  note t = detect_changes_trimmed_comparison [OF p c hs vs pv refl, THEN conjunct1]
  show ?thesis
    by (subst t) (simp add: strip_def isspace_def py_str_def)
qed

subsection \<open>C4: exceptions during the comparison\<close>

text \<open>
  Claim C4, as the code has it.  When the comparison raises, its exception is caught and
  the handler calls \<open>save_current_state\<close> on the current snapshot.  If the snapshot has
  at least 3 rows and the write succeeds, \<open>detect_changes\<close> returns the empty change list
  with the current snapshot persisted, so that the next load returns it.  If it has fewer
  than 3 rows the save is skipped, and the empty list is returned with the state file as
  it was.  If the write fails, the \<open>APIError\<close> of the save leaves \<open>detect_changes\<close>.  The
  exceptions of the comparison itself never do.
\<close>

theorem detect_changes_fail_open:
  assumes "prev \<noteq> []" "detect_body prev cur = Inl e"
  shows "(3 \<le> length cur \<and> io f = WriteOk \<longrightarrow>
            detect_changes (Some prev) cur f = (Inr [], f\<lparr>state_file := Some (Pickled cur)\<rparr>) \<and>
            load_previous_state (snd (detect_changes (Some prev) cur f)) = Some cur) \<and>
         (length cur < 3 \<longrightarrow> detect_changes (Some prev) cur f = (Inr [], f)) \<and>
         (3 \<le> length cur \<and> io f \<noteq> WriteOk \<longrightarrow>
            fst (detect_changes (Some prev) cur f) = Inl APIError) \<and>
         fst (detect_changes (Some prev) cur f) \<noteq> Inl IndexError \<and>
         fst (detect_changes (Some prev) cur f) \<noteq> Inl TypeError"
proof -
  note h = detect_changes_handler [OF assms, of f]
  have a: "detect_changes (Some prev) cur f = (Inr [], f\<lparr>state_file := Some (Pickled cur)\<rparr>)"
    if "3 \<le> length cur" "io f = WriteOk"
    using that by (auto simp: h save_current_state_def)
  have a': "load_previous_state (snd (detect_changes (Some prev) cur f)) = Some cur"
    if "3 \<le> length cur" "io f = WriteOk"
    using that by (auto simp: a load_previous_state_def)
  have b: "detect_changes (Some prev) cur f = (Inr [], f)" if "length cur < 3"
    using that by (simp add: h save_current_state_def)
  have c: "fst (detect_changes (Some prev) cur f) = Inl APIError"
    if "3 \<le> length cur" "io f \<noteq> WriteOk"
    using that by (cases "io f") (auto simp: h save_current_state_def)
  have d: "fst (detect_changes (Some prev) cur f) \<noteq> Inl IndexError"
    "fst (detect_changes (Some prev) cur f) \<noteq> Inl TypeError"
    using detect_changes_only_APIError [of "Some prev" cur f] by auto
  show ?thesis using a a' b c d by blast
qed

text \<open>
  C4 at a state file whose three entries are not rows: the comparison raises
  \<open>TypeError\<close>, the result is empty and the next load returns the current snapshot.
\<close>

theorem detect_changes_fail_open_witness:
  "detect_changes (Some [NoLen, NoLen, NoLen])
       (map Row (map (map py_str) [[''d'', ''100'', ''1''], ['''', ''T'', ''W''], []]))
       \<lparr>state_file = Some (Pickled [NoLen, NoLen, NoLen]), io = WriteOk\<rparr>
     = (Inr [], \<lparr>state_file = Some (Pickled
           (map Row (map (map py_str) [[''d'', ''100'', ''1''], ['''', ''T'', ''W''], []]))), io = WriteOk\<rparr>) \<and>
   load_previous_state (snd (detect_changes (Some [NoLen, NoLen, NoLen])
       (map Row (map (map py_str) [[''d'', ''100'', ''1''], ['''', ''T'', ''W''], []]))
       \<lparr>state_file = Some (Pickled [NoLen, NoLen, NoLen]), io = WriteOk\<rparr>))
     = Some (map Row (map (map py_str) [[''d'', ''100'', ''1''], ['''', ''T'', ''W''], []]))"
proof -
  let ?C = "map Row (map (map py_str) [[''d'', ''100'', ''1''], ['''', ''T'', ''W''], []])"
  have p: "[NoLen, NoLen, NoLen] \<noteq> []"
    by simp
  have h: "detect_body [NoLen, NoLen, NoLen] ?C = Inl TypeError"
    by (simp add: detect_body_def part_changes_def extract_part_headers_def extract_values_def)
  note t = detect_changes_fail_open
      [OF p h, of "\<lparr>state_file = Some (Pickled [NoLen, NoLen, NoLen]), io = WriteOk\<rparr>",
       THEN conjunct1]
  show ?thesis
    using t by (simp add: load_previous_state_def)
qed

text \<open>
  With the same state file, which the load accepts, and a disk that cannot be written,
  the comparison raises, and \<open>detect_changes\<close> neither returns an empty list nor
  persists the current snapshot: it raises \<open>APIError\<close>.
\<close>

theorem handler_save_fails_counterexample:
  "load_previous_state \<lparr>state_file = Some (Pickled [NoLen, NoLen, NoLen]), io = OpenFails\<rparr>
     = Some [NoLen, NoLen, NoLen] \<and>
   detect_body [NoLen, NoLen, NoLen]
       (map Row (map (map py_str) [[''d'', ''100'', ''1''], ['''', ''T'', ''W''], []])) = Inl TypeError \<and>
   detect_changes (Some [NoLen, NoLen, NoLen])
       (map Row (map (map py_str) [[''d'', ''100'', ''1''], ['''', ''T'', ''W''], []]))
       \<lparr>state_file = Some (Pickled [NoLen, NoLen, NoLen]), io = OpenFails\<rparr>
     = (Inl APIError, \<lparr>state_file = Some (Pickled [NoLen, NoLen, NoLen]), io = OpenFails\<rparr>)"
proof -
  let ?C = "map Row (map (map py_str) [[''d'', ''100'', ''1''], ['''', ''T'', ''W''], []])"
  have h: "detect_body [NoLen, NoLen, NoLen] ?C = Inl TypeError"
    by (simp add: detect_body_def part_changes_def extract_part_headers_def extract_values_def)
  have "detect_changes (Some [NoLen, NoLen, NoLen]) ?C
          \<lparr>state_file = Some (Pickled [NoLen, NoLen, NoLen]), io = OpenFails\<rparr>
        = (Inl APIError, \<lparr>state_file = Some (Pickled [NoLen, NoLen, NoLen]), io = OpenFails\<rparr>)"
    by (subst detect_changes_handler [OF _ h]) (simp_all add: save_current_state_def)
  with h show ?thesis by (simp add: load_previous_state_def)
qed

subsection \<open>C7: the labels are the current snapshot's\<close>

text \<open>
  Claim C7.  Replacing row 1 of the previous snapshot by any row leaves the result of
  \<open>detect_changes\<close> unchanged, and the label of every per-part change is a cell of the
  current snapshot's row 1 from column 2 on.
\<close>

theorem labels_from_current_only:
  "detect_changes (Some (prev[1 := r])) cur f = detect_changes (Some prev) cur f \<and>
   (part_changes (map Row prev_rows) (map Row cur_rows) = Inr pc \<and> (l, p, c) \<in> set pc \<longrightarrow>
      1 < length cur_rows \<and> l \<in> set (drop 2 (cur_rows ! 1)))"
proof -
  have "detect_changes (Some (prev[1 := r])) cur f = detect_changes (Some prev) cur f"
  proof (cases "prev = []")
    case True
    then show ?thesis by simp
  next
    case False
    then show ?thesis by (intro previous_row0_only) simp_all
  qed
  then show ?thesis using part_change_labels by blast
qed

text \<open>C7 at a previous snapshot whose own label was OLD: the change is labelled NEW.\<close>

theorem labels_from_current_only_witness:
  "detect_changes (Some (map Row (map (map py_str) [[''d'', ''t'', ''1''], ['''', ''P'', ''OLD''], []])))
       (map Row (map (map py_str) [[''d'', ''t'', ''2''], ['''', ''P'', ''NEW''], []]))
       \<lparr>state_file = None, io = WriteOk\<rparr>
   = detect_changes (Some (map Row (map (map py_str) [[''d'', ''t'', ''1''], ['''', ''P'', ''NEW''], []])))
       (map Row (map (map py_str) [[''d'', ''t'', ''2''], ['''', ''P'', ''NEW''], []]))
       \<lparr>state_file = None, io = WriteOk\<rparr> \<and>
   py_str ''NEW'' \<in> set (drop 2 (map (map py_str) [[''d'', ''t'', ''2''], ['''', ''P'', ''NEW''], []] ! 1))"
proof -
  let ?P = "map (map py_str) [[''d'', ''t'', ''1''], ['''', ''P'', ''NEW''], []]"
  let ?C = "map (map py_str) [[''d'', ''t'', ''2''], ['''', ''P'', ''NEW''], []]"
  have h: "part_changes (map Row ?P) (map Row ?C) = Inr [(py_str ''NEW'', py_str ''1'', py_str ''2'')]"
    by (subst part_changes_Row)
       (simp add: trimmed_mismatches_def strip_def isspace_def py_str_def)
  have m: "(py_str ''NEW'', py_str ''1'', py_str ''2'') \<in> set [(py_str ''NEW'', py_str ''1'', py_str ''2'')]"
    by simp
  note t = labels_from_current_only
      [of "map Row ?P" "Row (map py_str ['''', ''P'', ''OLD''])" "map Row ?C"
          "\<lparr>state_file = None, io = WriteOk\<rparr>" ?P ?C
          "[(py_str ''NEW'', py_str ''1'', py_str ''2'')]" "py_str ''NEW''" "py_str ''1''" "py_str ''2''"]
  show ?thesis
    using t h m by simp
qed

subsection \<open>C8: snapshots too small to extract from\<close>

text \<open>
  Claim C8, as the code has it.  A snapshot with no row at index 1, or whose row 1 has at
  most 2 cells, has no extractable headers; one with no row 0, or whose row 0 has at most
  2 cells, has no extractable values; neither extraction raises.  When the headers or the
  values extracted from the current snapshot are empty, no per-part change is emitted.
\<close>

theorem extraction_of_short_snapshot:
  "(length S \<le> 1 \<or> length (S ! 1) \<le> 2 \<longrightarrow> extract_part_headers (map Row S) = Inr []) \<and>
   (S = [] \<or> length (S ! 0) \<le> 2 \<longrightarrow> extract_values (map Row S) = Inr []) \<and>
   extract_part_headers (map Row S) \<noteq> Inl e \<and> extract_values (map Row S) \<noteq> Inl e \<and>
   (extract_part_headers (map Row cur) = Inr [] \<or> extract_values (map Row cur) = Inr [] \<longrightarrow>
      part_changes (map Row prev) (map Row cur) = Inr [])"
  using part_changes_no_current [of cur prev]
  by (auto simp: extract_part_headers_Row extract_values_Row)

text \<open>C8 at a current snapshot with a 2-cell label row, and at one with a 2-cell value row.\<close>

theorem extraction_of_short_snapshot_witness:
  "extract_part_headers (map Row (map (map py_str) [[''d'', ''t'', ''5''], ['''', ''P'']])) = Inr [] \<and>
   extract_values (map Row (map (map py_str) [[''d'', ''t''], ['''', ''P'', ''A'']])) = Inr [] \<and>
   part_changes (map Row (map (map py_str) [[''d'', ''t'', ''4''], ['''', ''P'', ''A'']]))
                (map Row (map (map py_str) [[''d'', ''t'', ''5''], ['''', ''P'']])) = Inr [] \<and>
   part_changes (map Row (map (map py_str) [[''d'', ''t'', ''4''], ['''', ''P'', ''A'']]))
                (map Row (map (map py_str) [[''d'', ''t''], ['''', ''P'', ''A'']])) = Inr []"
  using extraction_of_short_snapshot
      [of "map (map py_str) [[''d'', ''t'', ''5''], ['''', ''P'']]" IndexError
          "map (map py_str) [[''d'', ''t'', ''5''], ['''', ''P'']]"
          "map (map py_str) [[''d'', ''t'', ''4''], ['''', ''P'', ''A'']]"]
    extraction_of_short_snapshot
      [of "map (map py_str) [[''d'', ''t''], ['''', ''P'', ''A'']]" IndexError
          "map (map py_str) [[''d'', ''t''], ['''', ''P'', ''A'']]"
          "map (map py_str) [[''d'', ''t'', ''4''], ['''', ''P'', ''A'']]"]
  by simp

text \<open>
  An empty extraction from the previous snapshot does not silence the comparison: its row 0
  has 2 cells, nothing is extracted, the missing value is padded with the empty string and
  the part A is reported.
\<close>

theorem empty_previous_extraction_counterexample:
  "length (map (map py_str) [[''d'', ''t''], ['''', ''P'', ''A''], []] ! 0) \<le> 2 \<and>
   extract_values (map Row (map (map py_str) [[''d'', ''t''], ['''', ''P'', ''A''], []])) = Inr [] \<and>
   part_changes (map Row (map (map py_str) [[''d'', ''t''], ['''', ''P'', ''A''], []]))
                (map Row (map (map py_str) [[''d'', ''t'', ''5''], ['''', ''P'', ''A''], []]))
     = Inr [(py_str ''A'', [], py_str ''5'')]"
proof -
  have "part_changes (map Row (map (map py_str) [[''d'', ''t''], ['''', ''P'', ''A''], []]))
                (map Row (map (map py_str) [[''d'', ''t'', ''5''], ['''', ''P'', ''A''], []]))
     = Inr [(py_str ''A'', [], py_str ''5'')]"
    by (subst part_changes_Row)
       (simp add: trimmed_mismatches_def strip_def isspace_def py_str_def)
  then show ?thesis
    by (simp add: extract_values_def)
qed

subsection \<open>C9: saving and loading the state\<close>

text \<open>
  Claim C9.  For a snapshot of at least 3 rows, a save that returns normally followed by
  a load returns that snapshot (and the save does return normally when the write
  succeeds).  For a snapshot of fewer than 3 rows the save changes nothing, so a load
  after it returns what a load before it returned.
\<close>

theorem save_load_round_trip:
  "(3 \<le> length S \<and> fst (save_current_state S f) = Inr () \<longrightarrow>
      load_previous_state (snd (save_current_state S f)) = Some S) \<and>
   (3 \<le> length S \<and> io f = WriteOk \<longrightarrow>
      save_current_state S f = (Inr (), f\<lparr>state_file := Some (Pickled S)\<rparr>)) \<and>
   (length S < 3 \<longrightarrow>
      save_current_state S f = (Inr (), f) \<and>
      load_previous_state (snd (save_current_state S f)) = load_previous_state f)"
  by (cases "io f") (auto simp: save_current_state_def load_previous_state_def)

text \<open>
  C9 at the baseline snapshot of the specification's end-to-end scenario, and at a 1-row
  snapshot saved over an existing state.
\<close>

theorem save_load_round_trip_witness:
  "load_previous_state (snd (save_current_state
       (map Row (map (map py_str) [[''2024-01-01'', ''100'', '''', ''x''], ['''', ''TYPE'', ''WINGS''], []]))
       \<lparr>state_file = None, io = WriteOk\<rparr>))
     = Some (map Row (map (map py_str) [[''2024-01-01'', ''100'', '''', ''x''], ['''', ''TYPE'', ''WINGS''], []])) \<and>
   load_previous_state (snd (save_current_state (map Row (map (map py_str) [[''d'', ''1'']]))
       \<lparr>state_file = Some (Pickled (map Row (map (map py_str) [[''a''], [''b''], [''c'']]))), io = WriteOk\<rparr>))
     = Some (map Row (map (map py_str) [[''a''], [''b''], [''c'']]))"
  using save_load_round_trip
      [of "map Row (map (map py_str) [[''2024-01-01'', ''100'', '''', ''x''], ['''', ''TYPE'', ''WINGS''], []])"
          "\<lparr>state_file = None, io = WriteOk\<rparr>"]
    save_load_round_trip
      [of "map Row (map (map py_str) [[''d'', ''1'']])"
          "\<lparr>state_file = Some (Pickled (map Row (map (map py_str) [[''a''], [''b''], [''c'']]))), io = WriteOk\<rparr>"]
  by (simp add: load_previous_state_def)

subsection \<open>C10: a total change with no labels\<close>

text \<open>
  Claim C10.  When the current snapshot has no extractable headers (fewer than 2 rows, or
  a row 1 of at most 2 cells) and row 0 of both snapshots has at least 2 cells, there is
  no per-part change, the total cells are still compared, and the result is the total
  change alone when they differ after trimming, and empty otherwise.
\<close>

theorem total_only_alert:
  assumes "length cur < 2 \<or> length (cur ! 1) \<le> 2"
    and "prev \<noteq> []" "cur \<noteq> []" "2 \<le> length (prev ! 0)" "2 \<le> length (cur ! 0)"
  shows "part_changes (map Row prev) (map Row cur) = Inr [] \<and>
         detect_changes (Some (map Row prev)) (map Row cur) f =
           (Inr (if strip (prev ! 0 ! 1) \<noteq> strip (cur ! 0 ! 1)
                 then [(py_str ''TOTAL WEIGHTS'', prev ! 0 ! 1, cur ! 0 ! 1)] else []), f)"
proof -
  have "extract_part_headers (map Row cur) = Inr []"
    using assms(1) by (auto simp: extract_part_headers_Row)
  then have pc: "part_changes (map Row prev) (map Row cur) = Inr []"
    by (simp add: part_changes_no_current)
  show ?thesis
    using pc assms(4,5) detect_changes_eq [OF assms(2,3) pc, of f] by simp
qed

text \<open>
  C10 at a current snapshot whose label row has 2 cells: the total change alone; and
  nothing at all when the totals differ in a trailing no-break space only.
\<close>

theorem total_only_alert_witness:
  "detect_changes (Some (map Row (map (map py_str) [[''d'', ''100'', ''7''], ['''', ''P'', ''A''], []])))
       (map Row (map (map py_str) [[''d'', ''200'', ''8''], ['''', ''P''], []]))
       \<lparr>state_file = None, io = WriteOk\<rparr>
     = (Inr [(py_str ''TOTAL WEIGHTS'', py_str ''100'', py_str ''200'')],
        \<lparr>state_file = None, io = WriteOk\<rparr>) \<and>
   detect_changes (Some (map Row [[py_str ''d'', py_str ''1'' @ [0xA0], py_str ''7''], [[], py_str ''P'', py_str ''A''], []]))
       (map Row [[py_str ''d'', py_str ''1'', py_str ''8''], [[], py_str ''P''], []])
       \<lparr>state_file = None, io = WriteOk\<rparr>
     = (Inr [], \<lparr>state_file = None, io = WriteOk\<rparr>)"
proof -
  have s: "strip (py_str ''100'') \<noteq> strip (py_str ''200'')"
       "strip (py_str ''1'' @ [0xA0]) = strip (py_str ''1'')"
    by (simp_all add: strip_def isspace_def py_str_def)
  note a = total_only_alert
      [of "map (map py_str) [[''d'', ''200'', ''8''], ['''', ''P''], []]"
          "map (map py_str) [[''d'', ''100'', ''7''], ['''', ''P'', ''A''], []]"
          "\<lparr>state_file = None, io = WriteOk\<rparr>"]
  note b = total_only_alert
      [of "[[py_str ''d'', py_str ''1'', py_str ''8''], [[], py_str ''P''], []]"
          "[[py_str ''d'', py_str ''1'' @ [0xA0], py_str ''7''], [[], py_str ''P'', py_str ''A''], []]"
          "\<lparr>state_file = None, io = WriteOk\<rparr>"]
  show ?thesis
    using a b s by simp
qed

end
